theory Spec2Isabelle
  imports Main
begin

section \<open>Data model (services/database.ts)\<close>

text \<open>
  The interfaces \<^verbatim>\<open>Recording\<close> and \<^verbatim>\<open>Song\<close> of the database module. Optional
  fields of the TypeScript interface (\<^verbatim>\<open>title?\<close>, \<^verbatim>\<open>tags?\<close>, ...) are options; JavaScript
  numbers that hold durations and counters are integers. Field names carry a prefix
  because record fields are global constants.
\<close>

record Recording =
  r_id :: string
  r_songId :: "string option"
  r_audioPath :: string
  r_duration :: int
  r_createdAt :: string
  r_isSynced :: bool
  r_rating :: "int option"
  r_title :: "string option"
  r_artist :: "string option"
  r_isPublic :: "bool option"
  r_tags :: "string list option"
  r_playCount :: "int option"

record Song =
  s_id :: string
  s_title :: string
  s_artist :: string
  s_duration :: int
  s_audioUrl :: string
  s_lyrics :: string
  s_timing :: string
  s_isDownloaded :: bool
  s_createdAt :: string
  s_updatedAt :: string

text \<open>
  Errors raised by the services. Every \<^verbatim>\<open>throw\<close> of the source is a value of this
  type in the left summand of a result.
\<close>

datatype error =
    StorageWriteFailed
  | JsonParseError
  | SqlError
  | NoActiveRecording
  | InitFailed
  | PermissionNotGranted
  | DeviceError
  | NoRecordingUri
  | LocalRecordingServiceError
  | NetInfoError
  | NoUserId
  | UploadFailed

text \<open>
  The value stored under one key of AsyncStorage or localStorage: absent (\<^verbatim>\<open>getItem\<close>
  returns null), the JSON text of an array, or text that \<^verbatim>\<open>JSON.parse\<close> rejects.
\<close>

datatype 'a item = Missing | Json "'a list" | Unparsable

text \<open>
  The state a \<^verbatim>\<open>DatabaseService\<close> works on: its fields \<^verbatim>\<open>isWeb\<close> and \<^verbatim>\<open>db\<close> (the
  SQLite handle, here whether it is non-null), the two tables of the SQLite file (they
  outlive the handle), and the two storage keys that hold recordings:
  \<^verbatim>\<open>karaoke_recordings\<close> in AsyncStorage (mobile) and \<^verbatim>\<open>karaokemate_recordings\<close> in
  localStorage (web).
\<close>

record db_state =
  isWeb :: bool
  db_open :: bool
  songs_table :: "Song list"
  recordings_table :: "Recording list"
  asyncStorage_recordings :: "Recording item"
  localStorage_recordings :: "Recording item"

text \<open>
  What the environment decides during one call: whether \<^verbatim>\<open>setItem\<close> throws, whether a
  SQLite statement throws, and the value of \<^verbatim>\<open>new Date().toISOString()\<close>. Reads of the
  key-value stores (\<^verbatim>\<open>getItem\<close>) return what is stored.
\<close>

record io =
  setItem_fails :: bool
  sql_fails :: bool
  now :: string

section \<open>DatabaseService: recordings\<close>

definition getWebRecordings :: "db_state \<Rightarrow> Recording list" where
  "getWebRecordings st =
     (case localStorage_recordings st of
        Missing \<Rightarrow> []
      | Json recordings \<Rightarrow> recordings
      | Unparsable \<Rightarrow> [])"

definition getWebRecording :: "db_state \<Rightarrow> string \<Rightarrow> Recording option" where
  "getWebRecording st i = find (\<lambda>r. r_id r = i) (getWebRecordings st)"

definition getRecordings :: "db_state \<Rightarrow> Recording list" where
  "getRecordings st =
     (if isWeb st then getWebRecordings st
      else (case asyncStorage_recordings st of
              Missing \<Rightarrow> []
            | Json recordings \<Rightarrow> recordings
            | Unparsable \<Rightarrow> []))"

definition getRecording :: "db_state \<Rightarrow> string \<Rightarrow> Recording option" where
  "getRecording st i =
     (if isWeb st then getWebRecording st i
      else (case asyncStorage_recordings st of
              Missing \<Rightarrow> None
            | Json recordings \<Rightarrow> find (\<lambda>r. r_id r = i) recordings
            | Unparsable \<Rightarrow> None))"

definition saveWebRecording :: "io \<Rightarrow> Recording \<Rightarrow> db_state \<Rightarrow> (error + unit) \<times> db_state" where
  "saveWebRecording e recording st =
     (let fullRecording = recording\<lparr>r_createdAt := now e\<rparr>;
          existingRecordings = getWebRecordings st;
          updatedRecordings = fullRecording # existingRecordings
      in if setItem_fails e then (Inl StorageWriteFailed, st)
         else (Inr (), st\<lparr>localStorage_recordings := Json updatedRecordings\<rparr>))"

definition saveRecording :: "io \<Rightarrow> Recording \<Rightarrow> db_state \<Rightarrow> (error + unit) \<times> db_state" where
  "saveRecording e recording st =
     (if isWeb st then saveWebRecording e recording st
      else (case asyncStorage_recordings st of
              Unparsable \<Rightarrow> (Inl JsonParseError, st)
            | stored \<Rightarrow>
                (let recordings = (case stored of Json rs \<Rightarrow> rs | _ \<Rightarrow> []);
                     newRecording = recording\<lparr>r_createdAt := now e\<rparr>
                 in if setItem_fails e then (Inl StorageWriteFailed, st)
                    else (Inr (), st\<lparr>asyncStorage_recordings := Json (newRecording # recordings)\<rparr>))))"

definition setSynced :: "string \<Rightarrow> bool \<Rightarrow> Recording list \<Rightarrow> Recording list" where
  "setSynced i b recordings =
     map (\<lambda>recording. if r_id recording = i then recording\<lparr>r_isSynced := b\<rparr> else recording) recordings"

definition updateWebRecordingSyncStatus ::
  "io \<Rightarrow> string \<Rightarrow> bool \<Rightarrow> db_state \<Rightarrow> (error + unit) \<times> db_state" where
  "updateWebRecordingSyncStatus e i b st =
     (let recordings = getWebRecordings st;
          updatedRecordings = setSynced i b recordings
      in if setItem_fails e then (Inl StorageWriteFailed, st)
         else (Inr (), st\<lparr>localStorage_recordings := Json updatedRecordings\<rparr>))"

text \<open>
  On mobile the update is the statement
  \<^verbatim>\<open>UPDATE recordings SET isSynced = ? WHERE id = ?\<close> on the SQLite table. A null handle
  returns at once; a failing statement is caught, the handle is set to null and the
  method returns normally.
\<close>

definition updateRecordingSyncStatus ::
  "io \<Rightarrow> string \<Rightarrow> bool \<Rightarrow> db_state \<Rightarrow> (error + unit) \<times> db_state" where
  "updateRecordingSyncStatus e i b st =
     (if isWeb st then updateWebRecordingSyncStatus e i b st
      else if \<not> db_open st then (Inr (), st)
      else if sql_fails e then (Inr (), st\<lparr>db_open := False\<rparr>)
      else (Inr (), st\<lparr>recordings_table := setSynced i b (recordings_table st)\<rparr>))"



text \<open>
  The work queue of the synchronisation: \<^verbatim>\<open>SELECT * FROM recordings WHERE isSynced = 0\<close>
  on the SQLite table, the empty list when the handle is null. The statement is not
  inside a try block, so its failure is thrown to the caller.
\<close>

definition getUnsyncedRecordings :: "io \<Rightarrow> db_state \<Rightarrow> error + Recording list" where
  "getUnsyncedRecordings e st =
     (if \<not> db_open st then Inr []
      else if sql_fails e then Inl SqlError
      else Inr (filter (\<lambda>r. \<not> r_isSynced r) (recordings_table st)))"

section \<open>DatabaseService: songs\<close>

definition getSong :: "io \<Rightarrow> db_state \<Rightarrow> string \<Rightarrow> error + Song option" where
  "getSong e st i =
     (if \<not> db_open st then Inr None
      else if sql_fails e then Inl SqlError
      else Inr (find (\<lambda>s. s_id s = i) (songs_table st)))"

text \<open>
  \<^verbatim>\<open>INSERT OR REPLACE INTO songs\<close>: the row with the same primary key, if any, is
  removed and the new row is added, with both timestamps set to the current time.
\<close>

definition saveSong :: "io \<Rightarrow> Song \<Rightarrow> db_state \<Rightarrow> (error + unit) \<times> db_state" where
  "saveSong e song st =
     (if \<not> db_open st then (Inr (), st)
      else if sql_fails e then (Inl SqlError, st)
      else (Inr (), st\<lparr>songs_table :=
              filter (\<lambda>s. s_id s \<noteq> s_id song) (songs_table st)
                @ [song\<lparr>s_createdAt := now e, s_updatedAt := now e\<rparr>]\<rparr>))"



section \<open>SyncService (services/syncService.ts)\<close>

text \<open>
  A document of the Firestore collection of recordings, as \<^verbatim>\<open>uploadRecording\<close> builds it.
\<close>

record FirebaseRecording =
  f_userId :: string
  f_songId :: "string option"
  f_songTitle :: string
  f_songArtist :: string
  f_audioUrl :: string
  f_duration :: int
  f_isPublic :: bool
  f_tags :: "string list"
  f_playCount :: int

text \<open>
  The state of the synchronisation service: the database service it calls, its own
  fields, and the remote store (the files of Firebase Storage, by storage path, and the
  documents of Firestore).
\<close>

record sync_state =
  database :: db_state
  isOnline :: bool
  isSyncing :: bool
  currentUserId :: "string option"
  remote_files :: "string list"
  remote_recordings :: "FirebaseRecording list"

text \<open>
  What the environment decides during one pass of \<^verbatim>\<open>performSync\<close>: the outcome of the
  query for the queue, and for each recording of the queue the storage path built from
  \<^verbatim>\<open>Date.now()\<close>, the URL \<^verbatim>\<open>uploadRecordingFile\<close> returns (\<open>None\<close> when it throws),
  whether \<^verbatim>\<open>addRecording\<close> throws, and the outcome of the local update; at last the
  value of \<^verbatim>\<open>Date.now()\<close> in the identifier of the song that
  \<^verbatim>\<open>fetchNewSongsFromBackend\<close> returns, and the outcome of saving that song.
\<close>

record sync_env =
  queue_io :: io
  storagePath :: "Recording \<Rightarrow> string"
  uploadRecordingFile :: "Recording \<Rightarrow> string option"
  addRecording_fails :: "Recording \<Rightarrow> bool"
  mark_io :: "Recording \<Rightarrow> io"
  song_stamp :: string
  song_io :: io

text \<open>The JavaScript \<^verbatim>\<open>x || d\<close> on an optional string: undefined and the empty string give \<open>d\<close>.\<close>

definition str_or :: "string option \<Rightarrow> string \<Rightarrow> string" where
  "str_or x d = (case x of None \<Rightarrow> d | Some s \<Rightarrow> if s = [] then d else s)"

definition recordingData :: "string \<Rightarrow> string \<Rightarrow> Recording \<Rightarrow> FirebaseRecording" where
  "recordingData uid audioUrl recording =
     \<lparr>f_userId = uid,
      f_songId = r_songId recording,
      f_songTitle = str_or (r_title recording) ''Unknown Song'',
      f_songArtist = str_or (r_artist recording) ''Unknown Artist'',
      f_audioUrl = audioUrl,
      f_duration = r_duration recording,
      f_isPublic = (case r_isPublic recording of None \<Rightarrow> False | Some b \<Rightarrow> b),
      f_tags = (case r_tags recording of None \<Rightarrow> [''karaoke'', ''synced''] | Some ts \<Rightarrow> ts),
      f_playCount = 0\<rparr>"

text \<open>
  \<^verbatim>\<open>uploadRecording\<close> throws when \<^verbatim>\<open>!this.currentUserId\<close>, which holds for null and
  for the empty string.
\<close>

definition uploadRecording :: "sync_env \<Rightarrow> Recording \<Rightarrow> sync_state \<Rightarrow> (error + unit) \<times> sync_state" where
  "uploadRecording env recording st =
     (case currentUserId st of
        None \<Rightarrow> (Inl NoUserId, st)
      | Some uid \<Rightarrow>
          if uid = [] then (Inl NoUserId, st)
          else
            (case uploadRecordingFile env recording of
               None \<Rightarrow> (Inl UploadFailed, st)
             | Some audioUrl \<Rightarrow>
                 (let st1 = st\<lparr>remote_files := remote_files st @ [storagePath env recording]\<rparr>
                  in if addRecording_fails env recording then (Inl UploadFailed, st1)
                     else (Inr (), st1\<lparr>remote_recordings :=
                             remote_recordings st1 @ [recordingData uid audioUrl recording]\<rparr>))))"

text \<open>
  The body of the loop of \<^verbatim>\<open>uploadUnsyncedRecordings\<close> for one recording: upload, then
  mark as synced; an error of either is caught and logged inside the loop.
\<close>

definition syncOne :: "sync_env \<Rightarrow> Recording \<Rightarrow> sync_state \<Rightarrow> sync_state" where
  "syncOne env recording st =
     (case uploadRecording env recording st of
        (Inl err, st1) \<Rightarrow> st1
      | (Inr u, st1) \<Rightarrow>
          st1\<lparr>database :=
                snd (updateRecordingSyncStatus (mark_io env recording) (r_id recording) True
                       (database st1))\<rparr>)"

fun syncLoop :: "sync_env \<Rightarrow> Recording list \<Rightarrow> sync_state \<Rightarrow> sync_state" where
  "syncLoop env [] st = st"
| "syncLoop env (recording # rest) st = syncLoop env rest (syncOne env recording st)"

definition uploadUnsyncedRecordings :: "sync_env \<Rightarrow> sync_state \<Rightarrow> (error + unit) \<times> sync_state" where
  "uploadUnsyncedRecordings env st =
     (case getUnsyncedRecordings (queue_io env) (database st) of
        Inl err \<Rightarrow> (Inl err, st)
      | Inr unsyncedRecordings \<Rightarrow> (Inr (), syncLoop env unsyncedRecordings st))"

definition newSongLines :: string where
  \<open>newSongLines =
     ''[{"text":"This is a new song","startTime":0,"endTime":3000},'' @
     ''{"text":"Downloaded from backend","startTime":3000,"endTime":6000}]''\<close>

definition fetchNewSongsFromBackend :: "string \<Rightarrow> Song list" where
  "fetchNewSongsFromBackend stamp =
     [\<lparr>s_id = ''new_song_'' @ stamp,
       s_title = ''New Song'',
       s_artist = ''New Artist'',
       s_duration = 180000,
       s_audioUrl = ''https://example.com/new-song.m4a'',
       s_lyrics = newSongLines,
       s_timing = newSongLines,
       s_isDownloaded = False,
       s_createdAt = [],
       s_updatedAt = []\<rparr>]"

text \<open>
  \<^verbatim>\<open>downloadNewSongs\<close> saves the fetched songs one after the other; the first error
  leaves the loop and is caught there, so the method never throws.
\<close>

fun saveSongs :: "io \<Rightarrow> Song list \<Rightarrow> db_state \<Rightarrow> db_state" where
  "saveSongs e [] st = st"
| "saveSongs e (song # rest) st =
     (case saveSong e song st of
        (Inl err, st1) \<Rightarrow> st1
      | (Inr u, st1) \<Rightarrow> saveSongs e rest st1)"

definition downloadNewSongs :: "sync_env \<Rightarrow> sync_state \<Rightarrow> sync_state" where
  "downloadNewSongs env st =
     st\<lparr>database := saveSongs (song_io env) (fetchNewSongsFromBackend (song_stamp env)) (database st)\<rparr>"

text \<open>
  \<^verbatim>\<open>performSync\<close> in three parts: the guard with the setting of the flag (no await lies
  between them, so they are one step), the work, and the \<^verbatim>\<open>finally\<close> block. An error of
  \<^verbatim>\<open>uploadUnsyncedRecordings\<close> skips the download and is caught.
\<close>

definition syncGuard :: "sync_state \<Rightarrow> bool" where
  "syncGuard st = (isOnline st \<and> \<not> isSyncing st)"

definition syncEnter :: "sync_state \<Rightarrow> sync_state" where
  "syncEnter st = st\<lparr>isSyncing := True\<rparr>"

definition syncWork :: "sync_env \<Rightarrow> sync_state \<Rightarrow> sync_state" where
  "syncWork env st =
     (case uploadUnsyncedRecordings env st of
        (Inl err, st1) \<Rightarrow> st1
      | (Inr u, st1) \<Rightarrow> downloadNewSongs env st1)"

definition syncExit :: "sync_state \<Rightarrow> sync_state" where
  "syncExit st = st\<lparr>isSyncing := False\<rparr>"

definition performSync :: "sync_env \<Rightarrow> sync_state \<Rightarrow> (error + unit) \<times> sync_state" where
  "performSync env st =
     (if \<not> isOnline st \<or> isSyncing st then (Inr (), st)
      else (Inr (), syncExit (syncWork env (syncEnter st))))"

text \<open>
  Calls of \<^verbatim>\<open>performSync\<close> interleaved at their awaits. A configuration is the state
  of the service with the number of calls that have passed the guard and not yet reached
  the \<^verbatim>\<open>finally\<close> block. The events are: a call arrives (it passes the guard or returns
  at once), a call in flight finishes, the network listener sets \<^verbatim>\<open>isOnline\<close>, and
  \<^verbatim>\<open>setUserId\<close>.
\<close>

inductive_set sync_runs :: "(sync_state \<times> nat) set" where
  start: "\<not> isSyncing st \<Longrightarrow> (st, 0) \<in> sync_runs"
| call_enters: "(st, n) \<in> sync_runs \<Longrightarrow> syncGuard st \<Longrightarrow> (syncEnter st, Suc n) \<in> sync_runs"
| call_returns: "(st, n) \<in> sync_runs \<Longrightarrow> \<not> syncGuard st \<Longrightarrow> (st, n) \<in> sync_runs"
| call_finishes: "(st, Suc n) \<in> sync_runs \<Longrightarrow> (syncExit (syncWork env st), n) \<in> sync_runs"
| network: "(st, n) \<in> sync_runs \<Longrightarrow> (st\<lparr>isOnline := b\<rparr>, n) \<in> sync_runs"
| user: "(st, n) \<in> sync_runs \<Longrightarrow> (st\<lparr>currentUserId := u\<rparr>, n) \<in> sync_runs"

section \<open>AudioService: capture (services/audioService.ts)\<close>

datatype rec_state = RsIdle | RsRecording | RsStopping | RsStopped

text \<open>
  The fields of \<^verbatim>\<open>AudioService\<close> that the capture methods use. An \<^verbatim>\<open>Audio.Recording\<close>
  object is a number; \<open>live_captures\<close> is the state of the audio device: the recordings
  started by \<^verbatim>\<open>startAsync\<close> and not yet stopped by \<^verbatim>\<open>stopAndUnloadAsync\<close>.
\<close>

record audio_state =
  au_recording :: "nat option"
  au_isInitialized :: bool
  au_isRecording :: bool
  recordingState :: rec_state
  live_captures :: "nat list"

record start_env =
  init_fails :: bool
  cleanup_stop_fails :: bool
  permission_granted :: bool
  prepare_fails :: bool
  start_fails :: bool
  new_recording :: nat

record stop_env =
  stop_fails :: bool
  getURI :: "string option"
  permanentUri :: string
  move_fails :: bool
  add_moved_fails :: bool
  copy_fails :: bool
  add_copied_fails :: bool
  add_original_fails :: bool

definition initialize :: "start_env \<Rightarrow> audio_state \<Rightarrow> (error + unit) \<times> audio_state" where
  "initialize env st =
     (if au_isInitialized st then (Inr (), st)
      else if init_fails env then (Inl InitFailed, st)
      else (Inr (), st\<lparr>au_isInitialized := True\<rparr>))"

text \<open>
  \<^verbatim>\<open>startRecording\<close> awaits five times: \<^verbatim>\<open>initialize\<close>, \<^verbatim>\<open>cleanupRecording\<close>
  (only when a recording is left in a state other than idle),
  \<^verbatim>\<open>requestPermissionsAsync\<close>, \<^verbatim>\<open>prepareToRecordAsync\<close> and \<^verbatim>\<open>startAsync\<close>. A call
  in progress is at one of these awaits or has returned.
\<close>

datatype start_pc =
    AtInitialize
  | AtCleanup nat
  | AtPermissions
  | AtPrepare
  | AtStart
  | Returned "error + unit"

text \<open>
  One step of a call: what runs when the awaited operation has finished, up to the next
  await. The check for the recording state runs after \<^verbatim>\<open>initialize\<close>; the fields
  \<^verbatim>\<open>recording\<close>, \<^verbatim>\<open>_isRecording\<close> and \<^verbatim>\<open>_recordingState\<close> are assigned after
  \<^verbatim>\<open>startAsync\<close>. Every error reaches the catch block, which sets the state to idle
  and throws again. \<^verbatim>\<open>cleanupRecording\<close> sets the state to stopping, awaits
  \<^verbatim>\<open>stopAndUnloadAsync\<close> on the recording it found, swallows its error and clears the
  fields.
\<close>

fun start_step :: "start_env \<Rightarrow> start_pc \<Rightarrow> audio_state \<Rightarrow> start_pc \<times> audio_state" where
  "start_step env AtInitialize st =
     (case initialize env st of
        (Inl err, st1) \<Rightarrow> (Returned (Inl err), st1\<lparr>recordingState := RsIdle\<rparr>)
      | (Inr u, st1) \<Rightarrow>
          if recordingState st1 = RsRecording then (Returned (Inr ()), st1)
          else
            (case au_recording st1 of
               None \<Rightarrow> (AtPermissions, st1)
             | Some h \<Rightarrow>
                 if recordingState st1 \<noteq> RsIdle
                 then (AtCleanup h, st1\<lparr>recordingState := RsStopping\<rparr>)
                 else (AtPermissions, st1)))"
| "start_step env (AtCleanup h) st =
     (AtPermissions,
      st\<lparr>au_recording := None, au_isRecording := False, recordingState := RsIdle,
         live_captures :=
           (if cleanup_stop_fails env then live_captures st
            else removeAll h (live_captures st))\<rparr>)"
| "start_step env AtPermissions st =
     (if \<not> permission_granted env
      then (Returned (Inl PermissionNotGranted), st\<lparr>recordingState := RsIdle\<rparr>)
      else (AtPrepare, st))"
| "start_step env AtPrepare st =
     (if prepare_fails env then (Returned (Inl DeviceError), st\<lparr>recordingState := RsIdle\<rparr>)
      else (AtStart, st))"
| "start_step env AtStart st =
     (if start_fails env then (Returned (Inl DeviceError), st\<lparr>recordingState := RsIdle\<rparr>)
      else (Returned (Inr ()),
            st\<lparr>au_recording := Some (new_recording env),
               au_isRecording := True,
               recordingState := RsRecording,
               live_captures := new_recording env # live_captures st\<rparr>))"
| "start_step env (Returned r) st = (Returned r, st)"

text \<open>
  A call that nothing else interleaves with: its steps one after the other. Five steps
  reach the return on every path (lemma \<open>startRecording_returns\<close>).
\<close>

definition run_alone :: "start_env \<Rightarrow> audio_state \<Rightarrow> start_pc \<times> audio_state" where
  "run_alone env st =
     (let c1 = start_step env AtInitialize st;
          c2 = start_step env (fst c1) (snd c1);
          c3 = start_step env (fst c2) (snd c2);
          c4 = start_step env (fst c3) (snd c3)
      in start_step env (fst c4) (snd c4))"

definition startRecording :: "start_env \<Rightarrow> audio_state \<Rightarrow> (error + unit) \<times> audio_state" where
  "startRecording env st =
     (case run_alone env st of
        (Returned r, st1) \<Rightarrow> (r, st1)
      | (pc, st1) \<Rightarrow> (Inl DeviceError, st1))"



text \<open>
  \<^verbatim>\<open>stopRecording\<close>: the guard throws before the try block and leaves the state as it
  is. After it, the file is moved, or else copied, or else used where it is; the calls
  of \<^verbatim>\<open>localRecordingService.addRecording\<close> (a module outside this model) may throw
  too. Every path ends in the idle state.
\<close>

definition stopRecording :: "stop_env \<Rightarrow> audio_state \<Rightarrow> (error + string) \<times> audio_state" where
  "stopRecording env st =
     (case au_recording st of
        None \<Rightarrow> (Inl NoActiveRecording, st)
      | Some h \<Rightarrow>
          if recordingState st \<noteq> RsRecording then (Inl NoActiveRecording, st)
          else
            (let cleaned = (\<lambda>live. st\<lparr>au_recording := None, au_isRecording := False,
                                      recordingState := RsIdle, live_captures := live\<rparr>)
             in if stop_fails env then (Inl DeviceError, cleaned (live_captures st))
                else
                  (let live = removeAll h (live_captures st)
                   in case getURI env of
                        None \<Rightarrow> (Inl NoRecordingUri, cleaned live)
                      | Some uri \<Rightarrow>
                          if uri = [] then (Inl NoRecordingUri, cleaned live)
                          else if \<not> move_fails env \<and> \<not> add_moved_fails env
                            then (Inr (permanentUri env), cleaned live)
                          else if \<not> copy_fails env \<and> \<not> add_copied_fails env
                            then (Inr (permanentUri env), cleaned live)
                          else if \<not> add_original_fails env
                            then (Inr uri, cleaned live)
                          else (Inl LocalRecordingServiceError, cleaned live))))"

section \<open>AudioService: committing a recording\<close>

record metadata =
  m_songId :: "string option"
  m_songTitle :: "string option"
  m_songArtist :: "string option"
  m_duration :: "int option"
  m_isPublic :: "bool option"
  m_tags :: "string list option"

datatype netinfo = NetInfoThrows | NetInfoState "bool option"

text \<open>
  What the environment decides during \<^verbatim>\<open>stopRecordingAndUpload\<close>: the outcome of the
  stop, the identifier built from \<^verbatim>\<open>Date.now()\<close> and \<^verbatim>\<open>Math.random()\<close>, the outcome
  of the local save, and what \<^verbatim>\<open>NetInfo.fetch()\<close> reports.
\<close>

record commit_env =
  c_stop :: stop_env
  c_id :: string
  c_save :: io
  c_netinfo :: netinfo

record app_state =
  audio :: audio_state
  store :: db_state

definition localRecording :: "string \<Rightarrow> string \<Rightarrow> metadata \<Rightarrow> Recording" where
  "localRecording i recordingUri meta =
     \<lparr>r_id = i,
      r_songId = (case m_songId meta of None \<Rightarrow> None | Some s \<Rightarrow> if s = [] then None else Some s),
      r_audioPath = recordingUri,
      r_duration = (case m_duration meta of None \<Rightarrow> 120 | Some d \<Rightarrow> if d = 0 then 120 else d),
      r_createdAt = [],
      r_isSynced = False,
      r_rating = None,
      r_title = Some (str_or (m_songTitle meta) ''Local Recording''),
      r_artist = Some (str_or (m_songArtist meta) ''Karaoke User''),
      r_isPublic = Some (case m_isPublic meta of None \<Rightarrow> False | Some b \<Rightarrow> b),
      r_tags = Some (case m_tags meta of None \<Rightarrow> [''karaoke'', ''local''] | Some ts \<Rightarrow> ts),
      r_playCount = Some 0\<rparr>"

text \<open>
  The result is the identifier or the error, the state at the return, and whether
  \<^verbatim>\<open>uploadToFirebaseInBackground\<close> was started (it is not awaited, and it changes
  nothing before its first await).
\<close>

definition stopRecordingAndUpload ::
  "commit_env \<Rightarrow> string \<Rightarrow> metadata \<Rightarrow> app_state \<Rightarrow> (error + string) \<times> app_state \<times> bool" where
  "stopRecordingAndUpload env userId meta st =
     (case stopRecording (c_stop env) (audio st) of
        (Inl err, a1) \<Rightarrow> (Inl err, st\<lparr>audio := a1\<rparr>, False)
      | (Inr recordingUri, a1) \<Rightarrow>
          (case saveRecording (c_save env) (localRecording (c_id env) recordingUri meta) (store st) of
             (Inl err, d1) \<Rightarrow> (Inl err, \<lparr>audio = a1, store = d1\<rparr>, False)
           | (Inr u, d1) \<Rightarrow>
               (case c_netinfo env of
                  NetInfoThrows \<Rightarrow> (Inl NetInfoError, \<lparr>audio = a1, store = d1\<rparr>, False)
                | NetInfoState isConnected \<Rightarrow>
                    (Inr (c_id env), \<lparr>audio = a1, store = d1\<rparr>,
                     (case isConnected of None \<Rightarrow> False | Some b \<Rightarrow> b)))))"

section \<open>SongService: downloads (services/songService.ts)\<close>

record LyricLine =
  l_text :: string
  l_startTime :: int
  l_endTime :: int

record FirebaseSong =
  fs_title :: string
  fs_artist :: string
  fs_duration :: int
  fs_audioUrl :: string
  fs_lyrics :: "LyricLine list"
  fs_genre :: "string option"
  fs_difficulty :: "string option"
  fs_downloadCount :: "int option"
  fs_rating :: "int option"
  fs_tags :: "string list option"

text \<open>An entry of the AsyncStorage key \<^verbatim>\<open>karaoke_downloaded_songs\<close>.\<close>

record DownloadedSong =
  ds_id :: string
  ds_title :: string
  ds_artist :: string
  ds_duration :: int
  ds_audioUrl :: string
  ds_lyrics :: "LyricLine list"
  ds_timing :: "LyricLine list"
  ds_genre :: string
  ds_difficulty :: string
  ds_downloadCount :: int
  ds_rating :: int
  ds_tags :: "string list"
  ds_createdAt :: string
  ds_updatedAt :: string
  ds_isDownloaded :: bool

text \<open>
  The state the downloads work on: the database service, the local files (path to size
  in bytes) and the list of downloaded songs in AsyncStorage.
\<close>

record song_state =
  sdb :: db_state
  files :: "string \<Rightarrow> nat option"
  downloaded_songs :: "DownloadedSong item"

datatype 'a outcome = Throws | Returns 'a

text \<open>
  The outcome of \<^verbatim>\<open>FileSystem.downloadAsync\<close>: it throws, or it returns a status and a
  URI and leaves at that URI a file of some size or no file.
\<close>

datatype download_result = DownloadThrows | DownloadResult int string "nat option"

record download_env =
  d_getSong_io :: io
  documentDirectory :: string
  mkdir_fails :: bool
  downloadAsync :: "string \<Rightarrow> string \<Rightarrow> download_result"
  d_saveSong_io :: io

definition downloadSong :: "download_env \<Rightarrow> string \<Rightarrow> song_state \<Rightarrow> bool \<times> song_state" where
  "downloadSong env songId st =
     (case getSong (d_getSong_io env) (sdb st) songId of
        Inl err \<Rightarrow> (False, st)
      | Inr None \<Rightarrow> (False, st)
      | Inr (Some song) \<Rightarrow>
          if mkdir_fails env then (False, st)
          else
            (let songsDir = documentDirectory env @ ''songs/'';
                 localPath = songsDir @ songId @ ''.m4a''
             in case downloadAsync env (s_audioUrl song) localPath of
                  DownloadThrows \<Rightarrow> (False, st)
                | DownloadResult status uri file \<Rightarrow>
                    (let st1 = st\<lparr>files := (files st)(uri := file)\<rparr>
                     in if status = 200 then
                          (let updatedSong = song\<lparr>s_audioUrl := uri, s_isDownloaded := True\<rparr>
                           in case saveSong (d_saveSong_io env) updatedSong (sdb st1) of
                                (Inl err, d1) \<Rightarrow> (False, st1\<lparr>sdb := d1\<rparr>)
                              | (Inr u, d1) \<Rightarrow> (True, st1\<lparr>sdb := d1\<rparr>))
                        else (False, st1))))"

record firebase_env =
  firebase_getSong :: "FirebaseSong option outcome"
  fb_mkdir_fails :: bool
  head_request :: "string \<Rightarrow> (int \<times> int option) outcome"
  fb_documentDirectory :: string
  fb_downloadAsync :: "string \<Rightarrow> string \<Rightarrow> download_result"
  getInfo_fails :: bool
  fb_setItem_fails :: bool
  fb_now :: string

definition fallbackUrls :: "string list" where
  "fallbackUrls =
     [''https://www.learningcontainer.com/wp-content/uploads/2020/02/Kalimba.mp3'',
      ''https://www.soundjay.com/misc/sounds/bell-ringing-05.wav'']"

text \<open>
  The test of the audio URL with a HEAD request: the URL of the song when the status is
  200 and the content length is not 0, otherwise the first fallback URL that answers 200,
  otherwise an error.
\<close>

definition testAudioUrl :: "firebase_env \<Rightarrow> string \<Rightarrow> string option" where
  "testAudioUrl env url =
     (let passed =
            (case head_request env url of
               Throws \<Rightarrow> False
             | Returns (status, contentLength) \<Rightarrow> status = 200 \<and> contentLength \<noteq> Some 0)
      in if passed then Some url
         else find (\<lambda>fallbackUrl.
                      case head_request env fallbackUrl of
                        Throws \<Rightarrow> False
                      | Returns (status, contentLength) \<Rightarrow> status = 200) fallbackUrls)"

fun findIndex :: "('a \<Rightarrow> bool) \<Rightarrow> 'a list \<Rightarrow> nat option" where
  "findIndex P [] = None"
| "findIndex P (x # xs) =
     (if P x then Some 0 else (case findIndex P xs of None \<Rightarrow> None | Some n \<Rightarrow> Some (Suc n)))"

definition saveDownloadedSong ::
  "bool \<Rightarrow> DownloadedSong \<Rightarrow> song_state \<Rightarrow> (error + unit) \<times> song_state" where
  "saveDownloadedSong write_fails song st =
     (case downloaded_songs st of
        Unparsable \<Rightarrow> (Inl JsonParseError, st)
      | stored \<Rightarrow>
          (let songs = (case stored of Json ss \<Rightarrow> ss | _ \<Rightarrow> []);
               songs1 = (case findIndex (\<lambda>s. ds_id s = ds_id song) songs of
                           Some existingIndex \<Rightarrow> songs[existingIndex := song]
                         | None \<Rightarrow> song # songs)
           in if write_fails then (Inl StorageWriteFailed, st)
              else (Inr (), st\<lparr>downloaded_songs := Json songs1\<rparr>)))"

definition downloadedSong :: "string \<Rightarrow> FirebaseSong \<Rightarrow> string \<Rightarrow> string \<Rightarrow> DownloadedSong" where
  "downloadedSong firebaseSongId firebaseSong uri stamp =
     \<lparr>ds_id = firebaseSongId,
      ds_title = fs_title firebaseSong,
      ds_artist = fs_artist firebaseSong,
      ds_duration = fs_duration firebaseSong,
      ds_audioUrl = uri,
      ds_lyrics = fs_lyrics firebaseSong,
      ds_timing = fs_lyrics firebaseSong,
      ds_genre = str_or (fs_genre firebaseSong) ''Unknown'',
      ds_difficulty = str_or (fs_difficulty firebaseSong) ''Medium'',
      ds_downloadCount = (case fs_downloadCount firebaseSong of None \<Rightarrow> 0 | Some n \<Rightarrow> n),
      ds_rating = (case fs_rating firebaseSong of None \<Rightarrow> 0 | Some n \<Rightarrow> n),
      ds_tags = (case fs_tags firebaseSong of None \<Rightarrow> [] | Some ts \<Rightarrow> ts),
      ds_createdAt = stamp,
      ds_updatedAt = stamp,
      ds_isDownloaded = True\<rparr>"

text \<open>
  \<^verbatim>\<open>downloadFirebaseSong\<close>: after a download with status 200 it reads the file
  information and returns false when the file is missing or has size 0; only then is
  the song saved as downloaded. A failure of \<^verbatim>\<open>incrementDownloadCount\<close> is ignored and
  changes nothing local.
\<close>

definition downloadFirebaseSong ::
  "firebase_env \<Rightarrow> string \<Rightarrow> song_state \<Rightarrow> bool \<times> song_state" where
  "downloadFirebaseSong env firebaseSongId st =
     (case firebase_getSong env of
        Throws \<Rightarrow> (False, st)
      | Returns None \<Rightarrow> (False, st)
      | Returns (Some firebaseSong) \<Rightarrow>
          if fb_mkdir_fails env then (False, st)
          else
            (case testAudioUrl env (fs_audioUrl firebaseSong) of
               None \<Rightarrow> (False, st)
             | Some audioUrl \<Rightarrow>
                 (let songsDir = fb_documentDirectory env @ ''songs/'';
                      localPath = songsDir @ firebaseSongId @ ''.m4a''
                  in case fb_downloadAsync env audioUrl localPath of
                       DownloadThrows \<Rightarrow> (False, st)
                     | DownloadResult status uri file \<Rightarrow>
                         (let st1 = st\<lparr>files := (files st)(uri := file)\<rparr>
                          in if status = 200 then
                               (if getInfo_fails env then (False, st1)
                                else
                                  (case files st1 uri of
                                     None \<Rightarrow> (False, st1)
                                   | Some fileSize \<Rightarrow>
                                       if fileSize = 0 then (False, st1)
                                       else
                                         (case saveDownloadedSong (fb_setItem_fails env)
                                                 (downloadedSong firebaseSongId firebaseSong uri (fb_now env)) st1 of
                                            (Inl err, st2) \<Rightarrow> (False, st2)
                                          | (Inr u, st2) \<Rightarrow> (True, st2))))
                             else (False, st1)))))"

section \<open>Store operations, observations and example inputs\<close>





text \<open>
  What the reading methods of the service depend on: the list of recordings, the SQLite
  handle and the two tables.
\<close>

definition observe :: "db_state \<Rightarrow> Recording list \<times> bool \<times> Recording list \<times> Song list" where
  "observe st = (getRecordings st, db_open st, recordings_table st, songs_table st)"

definition io_ok :: io where
  "io_ok = \<lparr>setItem_fails = False, sql_fails = False, now = ''2025-01-01T00:00:00.000Z''\<rparr>"

definition io_sql_fails :: io where
  "io_sql_fails = \<lparr>setItem_fails = False, sql_fails = True, now = ''2025-01-01T00:00:00.000Z''\<rparr>"

definition rec_a :: Recording where
  "rec_a = \<lparr>r_id = ''a'', r_songId = None, r_audioPath = ''file:///a.m4a'', r_duration = 5000,
            r_createdAt = [], r_isSynced = False, r_rating = None, r_title = None,
            r_artist = None, r_isPublic = None, r_tags = None, r_playCount = None\<rparr>"

definition mobile_empty :: db_state where
  "mobile_empty = \<lparr>isWeb = False, db_open = True, songs_table = [], recordings_table = [],
                   asyncStorage_recordings = Missing, localStorage_recordings = Missing\<rparr>"




section \<open>Reading a synchronisation pass\<close>

text \<open>The rows that \<^verbatim>\<open>SELECT * FROM recordings WHERE isSynced = 0\<close> selects.\<close>

definition unsynced :: "db_state \<Rightarrow> Recording list" where
  "unsynced st = filter (\<lambda>r. \<not> r_isSynced r) (recordings_table st)"

text \<open>
  The upload of a recording succeeds in a pass: a user with a non-empty identifier is
  set, the file upload returns a URL and the creation of the document does not throw.
\<close>

definition uploads :: "sync_env \<Rightarrow> sync_state \<Rightarrow> Recording \<Rightarrow> bool" where
  "uploads env st recording =
     (currentUserId st \<noteq> None \<and> currentUserId st \<noteq> Some []
      \<and> uploadRecordingFile env recording \<noteq> None
      \<and> \<not> addRecording_fails env recording)"


text \<open>
  The queue that a call of \<^verbatim>\<open>performSync\<close> works through: the unsynced rows when the
  guard lets the call proceed and the query succeeds, nothing otherwise.
\<close>

definition pass_queue :: "sync_env \<Rightarrow> sync_state \<Rightarrow> Recording list" where
  "pass_queue env st =
     (if syncGuard st then
        (case getUnsyncedRecordings (queue_io env) (database st) of
           Inl err \<Rightarrow> []
         | Inr unsyncedRecordings \<Rightarrow> unsyncedRecordings)
      else [])"

text \<open>
  \<^verbatim>\<open>init\<close> returns on the web before it opens the database, and nothing else assigns a
  handle: on the web the handle is null.
\<close>

definition web_has_no_db :: "db_state \<Rightarrow> bool" where
  "web_has_no_db st = (isWeb st \<longrightarrow> \<not> db_open st)"


definition env_ok :: sync_env where
  "env_ok = \<lparr>queue_io = io_ok, storagePath = (\<lambda>r. ''user-recordings/u/'' @ r_id r),
             uploadRecordingFile = (\<lambda>r. Some (''https://storage/'' @ r_id r)),
             addRecording_fails = (\<lambda>r. False), mark_io = (\<lambda>r. io_ok),
             song_stamp = ''1735689600000'', song_io = io_ok\<rparr>"



definition sync_one_pending :: sync_state where
  "sync_one_pending =
     \<lparr>database = mobile_empty\<lparr>recordings_table := [rec_a]\<rparr>, isOnline = True, isSyncing = False,
      currentUserId = Some ''u'', remote_files = [], remote_recordings = []\<rparr>"









definition audio_capturing :: audio_state where
  "audio_capturing = \<lparr>au_recording = Some 1, au_isInitialized = True, au_isRecording = True,
                       recordingState = RsRecording, live_captures = [1]\<rparr>"




definition stop_ok :: stop_env where
  "stop_ok = \<lparr>stop_fails = False, getURI = Some ''file:///cache/rec.m4a'',
               permanentUri = ''file:///documents/recording_1.m4a'', move_fails = False,
               add_moved_fails = False, copy_fails = False, add_copied_fails = False,
               add_original_fails = False\<rparr>"

definition commit_offline :: commit_env where
  "commit_offline = \<lparr>c_stop = stop_ok, c_id = ''local_1_abc'', c_save = io_ok,
                      c_netinfo = NetInfoState (Some False)\<rparr>"

definition meta_5000 :: metadata where
  "meta_5000 = \<lparr>m_songId = None, m_songTitle = None, m_songArtist = None,
                 m_duration = Some 5000, m_isPublic = None, m_tags = None\<rparr>"

definition app_capturing :: app_state where
  "app_capturing = \<lparr>audio = audio_capturing, store = mobile_empty\<rparr>"

definition song_s1 :: Song where
  "song_s1 = \<lparr>s_id = ''s1'', s_title = ''Test Song'', s_artist = ''Demo Artist'', s_duration = 30000,
              s_audioUrl = ''https://remote/s1.m4a'', s_lyrics = ''[]'', s_timing = ''[]'',
              s_isDownloaded = False, s_createdAt = ''2025-01-01T00:00:00.000Z'',
              s_updatedAt = ''2025-01-01T00:00:00.000Z''\<rparr>"

definition songs_initial :: song_state where
  "songs_initial = \<lparr>sdb = mobile_empty\<lparr>songs_table := [song_s1]\<rparr>, files = (\<lambda>path. None),
                    downloaded_songs = Missing\<rparr>"

text \<open>A remote asset of zero bytes: the download answers 200 and leaves an empty file.\<close>

definition download_empty_asset :: download_env where
  "download_empty_asset =
     \<lparr>d_getSong_io = io_ok, documentDirectory = ''file:///documents/'', mkdir_fails = False,
      downloadAsync = (\<lambda>url localPath. DownloadResult 200 localPath (Some 0)),
      d_saveSong_io = io_ok\<rparr>"

section \<open>Lemmas about the store\<close>

lemma getRecording_find: "getRecording st i = find (\<lambda>r. r_id r = i) (getRecordings st)"
  by (simp add: getRecording_def getRecordings_def getWebRecording_def split: item.splits)



lemma save_keeps_queue:
  "getUnsyncedRecordings e' (snd (saveRecording e r st)) = getUnsyncedRecordings e' st"
  by (simp add: saveRecording_def saveWebRecording_def getUnsyncedRecordings_def Let_def
      split: item.splits)

section \<open>The claims\<close>

text \<open>
  C10. On mobile, marking as synced never throws, whatever the identifier and the state
  of the database: the result is always the normal return. With a null handle nothing
  changes; with a failing statement the error is swallowed and what can be observed
  afterwards is the old state with the handle set to null. The caller gets the same
  result in every case.
\<close>

theorem markSynced_mobile_never_throws:
  "\<not> isWeb st \<Longrightarrow>
     fst (updateRecordingSyncStatus e i b st) = Inr ()
   \<and> (\<not> db_open st \<longrightarrow> snd (updateRecordingSyncStatus e i b st) = st)
   \<and> (sql_fails e \<longrightarrow>
        observe (snd (updateRecordingSyncStatus e i b st)) = observe (st\<lparr>db_open := False\<rparr>))"
  by (simp add: updateRecordingSyncStatus_def observe_def getRecordings_def)

theorem markSynced_mobile_never_throws_witness:
  "\<not> isWeb mobile_empty \<and> sql_fails io_sql_fails \<and> \<not> db_open (mobile_empty\<lparr>db_open := False\<rparr>)
   \<and> fst (updateRecordingSyncStatus io_sql_fails ''a'' True mobile_empty) = Inr ()
   \<and> observe (snd (updateRecordingSyncStatus io_sql_fails ''a'' True mobile_empty))
       = observe (mobile_empty\<lparr>db_open := False\<rparr>)
   \<and> snd (updateRecordingSyncStatus io_ok ''a'' True (mobile_empty\<lparr>db_open := False\<rparr>))
       = mobile_empty\<lparr>db_open := False\<rparr>"
  using markSynced_mobile_never_throws [of mobile_empty io_sql_fails "''a''" True]
    markSynced_mobile_never_throws [of "mobile_empty\<lparr>db_open := False\<rparr>" io_ok "''a''" True]
  by (simp add: mobile_empty_def io_sql_fails_def)

text \<open>
  C1. The claim: after a completed save of a recording and before it is marked as synced,
  the queue of unsynced recordings contains it. Evaluated on mobile with an open, empty
  database: the save succeeds and the recording can be read back, but the queue, which is
  read from the SQLite table, is empty.
\<close>

theorem saved_recording_missing_from_queue:
  "fst (saveRecording io_ok rec_a mobile_empty) = Inr ()
   \<and> getRecording (snd (saveRecording io_ok rec_a mobile_empty)) ''a'' \<noteq> None
   \<and> getUnsyncedRecordings io_ok (snd (saveRecording io_ok rec_a mobile_empty)) = Inr []"
  by (simp add: saveRecording_def getUnsyncedRecordings_def getRecording_def mobile_empty_def
      io_ok_def rec_a_def)

section \<open>Saving and marking\<close>

lemma save_getRecordings:
  "saveRecording e r st = (Inr (), st') \<Longrightarrow>
   getRecordings st' = r\<lparr>r_createdAt := now e\<rparr> # getRecordings st"
  by (auto simp: saveRecording_def saveWebRecording_def getRecordings_def getWebRecordings_def
      Let_def split: item.splits if_splits)











text \<open>
  C4. The claim: a save is an idempotent upsert by identifier, so that saving a recording
  twice leaves the store as one save does. On the code a save puts the recording, stamped
  with the current time, in front of the list and looks for no entry with the same
  identifier: after two saves of the same recording into an empty store the list has two
  entries, after one save it has one.
\<close>

theorem save_twice_two_entries:
  "observe (snd (saveRecording io_ok rec_a (snd (saveRecording io_ok rec_a mobile_empty))))
     \<noteq> observe (snd (saveRecording io_ok rec_a mobile_empty))
   \<and> length (getRecordings (snd (saveRecording io_ok rec_a mobile_empty))) = 1
   \<and> length (getRecordings
        (snd (saveRecording io_ok rec_a (snd (saveRecording io_ok rec_a mobile_empty))))) = 2"
  by (simp add: observe_def saveRecording_def getRecordings_def mobile_empty_def io_ok_def)

text \<open>
  C4 as amended. A successful save adds exactly one entry, the recording with the current
  time as its creation time, in front of the list and keeps every older entry; reading by
  the identifier of the saved recording gives the entry just saved, and reading by any
  other identifier gives what it gave before.
\<close>

theorem save_prepends:
  "saveRecording e r st = (Inr (), st') \<Longrightarrow>
     getRecordings st' = r\<lparr>r_createdAt := now e\<rparr> # getRecordings st
   \<and> getRecording st' (r_id r) = Some (r\<lparr>r_createdAt := now e\<rparr>)
   \<and> (\<forall>i. i \<noteq> r_id r \<longrightarrow> getRecording st' i = getRecording st i)"
  by (simp add: getRecording_find save_getRecordings)

theorem save_prepends_witness:
  "saveRecording io_ok rec_a mobile_empty
     = (Inr (), mobile_empty\<lparr>asyncStorage_recordings := Json [rec_a\<lparr>r_createdAt := now io_ok\<rparr>]\<rparr>)
   \<and> getRecordings (mobile_empty\<lparr>asyncStorage_recordings := Json [rec_a\<lparr>r_createdAt := now io_ok\<rparr>]\<rparr>)
       = [rec_a\<lparr>r_createdAt := now io_ok\<rparr>]
   \<and> getRecording (mobile_empty\<lparr>asyncStorage_recordings := Json [rec_a\<lparr>r_createdAt := now io_ok\<rparr>]\<rparr>) ''a''
       = Some (rec_a\<lparr>r_createdAt := now io_ok\<rparr>)"
proof -
  have s: "saveRecording io_ok rec_a mobile_empty
     = (Inr (), mobile_empty\<lparr>asyncStorage_recordings := Json [rec_a\<lparr>r_createdAt := now io_ok\<rparr>]\<rparr>)"
    by (simp add: saveRecording_def mobile_empty_def io_ok_def)
  have g: "getRecordings mobile_empty = []"
    by (simp add: getRecordings_def mobile_empty_def)
  have a: "r_id rec_a = ''a''"
    by (simp add: rec_a_def)
  show ?thesis using save_prepends [OF s] s g a by simp
qed




section \<open>Lemmas about a synchronisation pass\<close>

lemma syncOne_fields:
  "isSyncing (syncOne env x st) = isSyncing st"
  "isOnline (syncOne env x st) = isOnline st"
  "currentUserId (syncOne env x st) = currentUserId st"
  by (simp_all add: syncOne_def uploadRecording_def Let_def split: option.splits)

lemma syncLoop_fields:
  "isSyncing (syncLoop env rs st) = isSyncing st \<and> isOnline (syncLoop env rs st) = isOnline st
   \<and> currentUserId (syncLoop env rs st) = currentUserId st"
  by (induction rs arbitrary: st) (simp_all add: syncOne_fields)

lemma syncWork_fields:
  "isSyncing (syncWork env st) = isSyncing st \<and> isOnline (syncWork env st) = isOnline st
   \<and> currentUserId (syncWork env st) = currentUserId st"
  by (simp add: syncWork_def uploadUnsyncedRecordings_def downloadNewSongs_def syncLoop_fields
      split: sum.splits)

lemma sync_runs_flag: "(st, n) \<in> sync_runs \<Longrightarrow> n \<le> 1 \<and> (isSyncing st \<longleftrightarrow> n = 1)"
proof (induction st n rule: sync_runs.induct)
  case (start st)
  then show ?case by simp
next
  case (call_enters st n)
  then show ?case by (auto simp: syncGuard_def syncEnter_def)
next
  case (call_returns st n)
  then show ?case by simp
next
  case (call_finishes st n env)
  then show ?case by (simp add: syncExit_def)
next
  case (network st n b)
  then show ?case by simp
next
  case (user st n u)
  then show ?case by simp
qed

lemma performSync_parts:
  "syncGuard st \<Longrightarrow> performSync env st = (Inr (), syncExit (syncWork env (syncEnter st)))"
  by (auto simp: performSync_def syncGuard_def)






lemma uploads_syncOne: "uploads env (syncOne env x st) r = uploads env st r"
  by (simp add: uploads_def syncOne_fields)

text \<open>What one turn of the loop does to the database.\<close>

lemma syncOne_database:
  "database (syncOne env x st) =
     (if uploads env st x
      then snd (updateRecordingSyncStatus (mark_io env x) (r_id x) True (database st))
      else database st)"
  by (auto simp: syncOne_def uploadRecording_def uploads_def Let_def split: option.splits)



lemma unsynced_in_setSynced:
  "r \<in> set (setSynced i True tbl) \<Longrightarrow> \<not> r_isSynced r \<Longrightarrow> r \<in> set tbl \<and> r_id r \<noteq> i"
  by (induction tbl) (auto simp: setSynced_def split: if_splits)



text \<open>The handle, once null, stays null; the platform never changes.\<close>

lemma mark_handle:
  "db_open (snd (updateRecordingSyncStatus e i b d)) \<Longrightarrow> db_open d"
  "isWeb (snd (updateRecordingSyncStatus e i b d)) = isWeb d"
  by (simp_all add: updateRecordingSyncStatus_def updateWebRecordingSyncStatus_def Let_def
      split: if_splits)

lemma syncOne_handle:
  "db_open (database (syncOne env x st)) \<Longrightarrow> db_open (database st)"
  "isWeb (database (syncOne env x st)) = isWeb (database st)"
  by (auto simp: syncOne_database mark_handle split: if_splits)

lemma syncLoop_handle:
  "db_open (database (syncLoop env rs st)) \<Longrightarrow> db_open (database st)"
  by (induction rs arbitrary: st) (auto dest: syncOne_handle(1))

lemma syncLoop_isWeb: "isWeb (database (syncLoop env rs st)) = isWeb (database st)"
  by (induction rs arbitrary: st) (simp_all add: syncOne_handle(2))

lemma mark_mobile_open:
  "\<not> isWeb d \<Longrightarrow> db_open (snd (updateRecordingSyncStatus e i True d)) \<Longrightarrow>
   recordings_table (snd (updateRecordingSyncStatus e i True d)) = setSynced i True (recordings_table d)"
  by (simp add: updateRecordingSyncStatus_def split: if_splits)

lemma syncOne_marks:
  assumes "\<not> isWeb (database st)" "db_open (database (syncOne env x st))"
    "r \<in> set (unsynced (database (syncOne env x st)))"
  shows "r \<in> set (unsynced (database st)) \<and> (uploads env st x \<longrightarrow> r_id x \<noteq> r_id r)"
proof (cases "uploads env st x")
  case False
  with assms(3) show ?thesis by (simp add: syncOne_database)
next
  case True
  with assms(1,2) have "recordings_table (database (syncOne env x st))
      = setSynced (r_id x) True (recordings_table (database st))"
    by (simp add: syncOne_database mark_mobile_open)
  with assms(3) unsynced_in_setSynced [of r "r_id x" "recordings_table (database st)"]
  show ?thesis by (auto simp: unsynced_def)
qed

lemma syncLoop_marks:
  "\<not> isWeb (database st) \<Longrightarrow> db_open (database (syncLoop env rs st)) \<Longrightarrow>
   r \<in> set (unsynced (database (syncLoop env rs st))) \<Longrightarrow>
   r \<in> set (unsynced (database st)) \<and> (\<forall>x \<in> set rs. uploads env st x \<longrightarrow> r_id x \<noteq> r_id r)"
proof (induction rs arbitrary: st)
  case Nil
  then show ?case by simp
next
  case (Cons x rs)
  let ?s = "syncOne env x st"
  from Cons.prems have w: "\<not> isWeb (database ?s)" by (simp add: syncOne_handle(2))
  from Cons.prems have o: "db_open (database (syncLoop env rs ?s))" by simp
  from Cons.prems have u: "r \<in> set (unsynced (database (syncLoop env rs ?s)))" by simp
  from Cons.IH [OF w o u] have ih: "r \<in> set (unsynced (database ?s))"
    "\<forall>y \<in> set rs. uploads env ?s y \<longrightarrow> r_id y \<noteq> r_id r" by auto
  from o have "db_open (database ?s)" by (rule syncLoop_handle)
  with Cons.prems(1) ih(1) have "r \<in> set (unsynced (database st)) \<and> (uploads env st x \<longrightarrow> r_id x \<noteq> r_id r)"
    by (auto dest: syncOne_marks)
  with ih(2) show ?case by (simp add: uploads_syncOne)
qed


lemma saveSongs_keeps:
  "recordings_table (saveSongs e ss d) = recordings_table d \<and> db_open (saveSongs e ss d) = db_open d"
  by (induction ss arbitrary: d) (simp_all add: saveSong_def)

lemma syncEnter_simps:
  "database (syncEnter st) = database st"
  "currentUserId (syncEnter st) = currentUserId st"
  "remote_recordings (syncEnter st) = remote_recordings st"
  "uploads env (syncEnter st) r = uploads env st r"
  by (simp_all add: syncEnter_def uploads_def)

lemma performSync_db:
  "unsynced (database (snd (performSync env st)))
     = unsynced (database (syncLoop env (pass_queue env st) (syncEnter st)))
   \<and> db_open (database (snd (performSync env st)))
     = db_open (database (syncLoop env (pass_queue env st) (syncEnter st)))"
  by (simp add: performSync_def pass_queue_def syncGuard_def syncExit_def syncWork_def
      uploadUnsyncedRecordings_def downloadNewSongs_def saveSongs_keeps unsynced_def
      syncEnter_simps split: sum.splits)


lemma queue_cases:
  "getUnsyncedRecordings e d = Inr q \<Longrightarrow> q = [] \<or> (db_open d \<and> q = unsynced d)"
  by (auto simp: getUnsyncedRecordings_def unsynced_def split: if_splits)

lemma pass_queue_cases:
  "pass_queue env st = []
   \<or> (syncGuard st \<and> db_open (database st) \<and> pass_queue env st = unsynced (database st))"
  by (auto simp: pass_queue_def dest: queue_cases split: sum.splits)


lemma second_queue:
  assumes wf: "web_has_no_db (database st)"
    and r: "r \<in> set (pass_queue env2 (snd (performSync env1 st)))"
  shows "r \<in> set (unsynced (database st)) \<and> \<not> (r \<in> set (pass_queue env1 st) \<and> uploads env1 st r)"
proof -
  let ?s1 = "snd (performSync env1 st)"
  let ?l = "syncLoop env1 (pass_queue env1 st) (syncEnter st)"
  from r pass_queue_cases [of env2 ?s1]
  have op: "db_open (database ?s1)" and ru: "r \<in> set (unsynced (database ?s1))" by auto
  from op have ol: "db_open (database ?l)" by (simp add: performSync_db)
  from ru have ul: "r \<in> set (unsynced (database ?l))" by (simp add: performSync_db)
  from ol have "db_open (database (syncEnter st))" by (rule syncLoop_handle)
  with wf have mob: "\<not> isWeb (database (syncEnter st))"
    by (auto simp: web_has_no_db_def syncEnter_simps)
  from syncLoop_marks [OF mob ol ul] show ?thesis
    by (auto simp: syncEnter_simps)
qed




text \<open>
  C7. A call of \<^verbatim>\<open>performSync\<close> that finds the service offline or a pass in flight
  returns at once, without error and with the state as it was. Every call returns without
  error. A call that finds the service online and no pass in flight sets the flag, keeps
  it set during its work and clears it at the end. In every interleaving of calls, of
  changes of the network and of the user, at most one call is past the guard, and the
  flag is set exactly when one is.
\<close>

theorem performSync_guarded:
  "(\<not> isOnline st \<or> isSyncing st \<longrightarrow> performSync env st = (Inr (), st))
   \<and> fst (performSync env st) = Inr ()
   \<and> (isOnline st \<and> \<not> isSyncing st \<longrightarrow>
        performSync env st = (Inr (), syncExit (syncWork env (syncEnter st)))
        \<and> isSyncing (syncEnter st) \<and> isSyncing (syncWork env (syncEnter st))
        \<and> \<not> isSyncing (snd (performSync env st)))
   \<and> ((s, n) \<in> sync_runs \<longrightarrow> n \<le> 1 \<and> (isSyncing s \<longleftrightarrow> n = 1))"
proof -
  have a: "\<not> isOnline st \<or> isSyncing st \<longrightarrow> performSync env st = (Inr (), st)"
    by (simp add: performSync_def)
  have b: "fst (performSync env st) = Inr ()"
    by (simp add: performSync_def)
  have c: "isOnline st \<and> \<not> isSyncing st \<longrightarrow>
        performSync env st = (Inr (), syncExit (syncWork env (syncEnter st)))
        \<and> isSyncing (syncEnter st) \<and> isSyncing (syncWork env (syncEnter st))
        \<and> \<not> isSyncing (snd (performSync env st))"
    by (simp add: performSync_def syncWork_fields syncEnter_def syncExit_def)
  have d: "(s, n) \<in> sync_runs \<longrightarrow> n \<le> 1 \<and> (isSyncing s \<longleftrightarrow> n = 1)"
    using sync_runs_flag [of s n] by blast
  from a b c d show ?thesis by blast
qed

theorem performSync_guarded_witness:
  "\<not> isOnline (sync_one_pending\<lparr>isOnline := False\<rparr>)
   \<and> performSync env_ok (sync_one_pending\<lparr>isOnline := False\<rparr>)
       = (Inr (), sync_one_pending\<lparr>isOnline := False\<rparr>)
   \<and> isSyncing (syncEnter sync_one_pending)
   \<and> performSync env_ok (syncEnter sync_one_pending) = (Inr (), syncEnter sync_one_pending)
   \<and> isOnline sync_one_pending \<and> \<not> isSyncing sync_one_pending
   \<and> \<not> isSyncing (snd (performSync env_ok sync_one_pending))
   \<and> (syncEnter sync_one_pending, Suc 0) \<in> sync_runs"
proof -
  have r0: "(sync_one_pending, 0) \<in> sync_runs"
    by (rule sync_runs.start) (simp add: sync_one_pending_def)
  have r1: "(syncEnter sync_one_pending, Suc 0) \<in> sync_runs"
    by (rule sync_runs.call_enters [OF r0]) (simp add: syncGuard_def sync_one_pending_def)
  have f: "isOnline sync_one_pending \<and> \<not> isSyncing sync_one_pending"
    by (simp add: sync_one_pending_def)
  from performSync_guarded [of "sync_one_pending\<lparr>isOnline := False\<rparr>" env_ok "syncEnter sync_one_pending" "Suc 0"]
    performSync_guarded [of "syncEnter sync_one_pending" env_ok "syncEnter sync_one_pending" "Suc 0"]
    performSync_guarded [of sync_one_pending env_ok "syncEnter sync_one_pending" "Suc 0"] r1 f
  show ?thesis by (simp add: syncEnter_def syncExit_def)
qed







section \<open>Two passes in succession\<close>






text \<open>
  On a table that does hold rows, the second of two passes works only on rows that the
  first pass did not upload.
\<close>

lemma second_pass_on_rows:
  assumes "web_has_no_db (database st)"
  shows "\<forall>r \<in> set (pass_queue env2 (snd (performSync env1 st))).
         r \<in> set (unsynced (database st)) \<and> \<not> (r \<in> set (pass_queue env1 st) \<and> uploads env1 st r)"
  using second_queue [OF assms] by blast



section \<open>Lemmas about capture, commit and download\<close>

lemma stop_guard:
  "recordingState st \<noteq> RsRecording \<Longrightarrow> stopRecording env st = (Inl NoActiveRecording, st)"
  by (simp add: stopRecording_def split: option.splits)

text \<open>A call that runs alone has returned after its five steps.\<close>

lemma startRecording_returns: "\<exists>r. fst (run_alone env st) = Returned r"
  by (auto simp: run_alone_def initialize_def Let_def split: option.splits)

text \<open>
  What holds of calls that do not overlap: a start in the recording state changes
  nothing, and after a start from the idle state that succeeded a second start changes
  nothing either and one capture is live.
\<close>

lemma start_again:
  "recordingState st = RsRecording \<Longrightarrow> au_isInitialized st \<Longrightarrow> startRecording env st = (Inr (), st)"
  by (simp add: startRecording_def run_alone_def initialize_def)

lemma start_success:
  assumes "startRecording env st = (Inr (), st1)" "recordingState st \<noteq> RsRecording"
    "live_captures st = []"
  shows "recordingState st1 = RsRecording \<and> au_isInitialized st1
     \<and> au_recording st1 = Some (new_recording env) \<and> live_captures st1 = [new_recording env]"
  using assms
  by (auto simp: startRecording_def run_alone_def initialize_def Let_def
      split: if_splits option.splits)

lemma sequential_starts:
  assumes "recordingState st = RsIdle" "live_captures st = []"
    "startRecording env st = (Inr (), st1)"
  shows "startRecording env2 st1 = (Inr (), st1) \<and> live_captures st1 = [new_recording env]"
  using start_success [OF assms(3)] assms(1,2) by (simp add: start_again)

lemma save_then_get:
  "saveRecording e r d = (Inr (), d') \<Longrightarrow> getRecording d' (r_id r) = Some (r\<lparr>r_createdAt := now e\<rparr>)"
  by (auto simp: saveRecording_def saveWebRecording_def getRecording_def getWebRecording_def
      getWebRecordings_def Let_def split: item.splits if_splits)

lemma commit_saved:
  assumes "stopRecordingAndUpload env userId meta st = (Inr i, st', bg)"
  shows "\<exists>uri. getRecording (store st') i = Some ((localRecording i uri meta)\<lparr>r_createdAt := now (c_save env)\<rparr>)"
proof -
  from assms obtain uri a1 where s: "stopRecording (c_stop env) (audio st) = (Inr uri, a1)"
    by (auto simp: stopRecordingAndUpload_def split: prod.splits sum.splits)
  with assms obtain d1 where
    v: "saveRecording (c_save env) (localRecording (c_id env) uri meta) (store st) = (Inr (), d1)"
    by (auto simp: stopRecordingAndUpload_def split: prod.splits sum.splits)
  with s assms have "i = c_id env" "store st' = d1"
    by (auto simp: stopRecordingAndUpload_def split: netinfo.splits)
  moreover have "r_id (localRecording (c_id env) uri meta) = c_id env"
    by (simp add: localRecording_def)
  ultimately show ?thesis using save_then_get [OF v] by auto
qed

lemma stop_returns:
  assumes "au_recording a = Some h" "recordingState a = RsRecording" "\<not> stop_fails env"
    "getURI env = Some u" "u \<noteq> []" "\<not> add_original_fails env"
  shows "\<exists>uri a1. stopRecording env a = (Inr uri, a1)"
  using assms by (simp add: stopRecording_def Let_def)

lemma save_returns:
  assumes "\<not> setItem_fails e" "isWeb d \<or> asyncStorage_recordings d \<noteq> Unparsable"
  shows "\<exists>d1. saveRecording e r d = (Inr (), d1)"
  using assms by (auto simp: saveRecording_def saveWebRecording_def Let_def split: item.splits)

lemma commit_returns:
  assumes "au_recording (audio st) = Some h" "recordingState (audio st) = RsRecording"
    "\<not> stop_fails (c_stop env)" "getURI (c_stop env) = Some u" "u \<noteq> []"
    "\<not> add_original_fails (c_stop env)" "\<not> setItem_fails (c_save env)"
    "isWeb (store st) \<or> asyncStorage_recordings (store st) \<noteq> Unparsable"
    "c_netinfo env = NetInfoState c"
  shows "fst (stopRecordingAndUpload env userId meta st) = Inr (c_id env)"
proof -
  from stop_returns [OF assms(1-6)] obtain uri a1 where
    s: "stopRecording (c_stop env) (audio st) = (Inr uri, a1)" by blast
  from save_returns [OF assms(7,8)] obtain d1 where
    v: "saveRecording (c_save env) (localRecording (c_id env) uri meta) (store st) = (Inr (), d1)"
    by blast
  from s v assms(9) show ?thesis by (simp add: stopRecordingAndUpload_def)
qed

text \<open>
  The sibling of \<^verbatim>\<open>downloadSong\<close> for songs of the remote catalogue does verify the
  file: it returns true only when the downloaded file exists and is not empty.
\<close>

lemma saveDownloadedSong_files: "files (snd (saveDownloadedSong w song st)) = files st"
  by (simp add: saveDownloadedSong_def Let_def split: item.splits option.splits)

lemma downloadFirebaseSong_verifies:
  assumes "downloadFirebaseSong env i st = (True, st')"
  shows "\<exists>uri n. files st' uri = Some n \<and> 0 < n"
proof -
  from assms obtain song where "firebase_getSong env = Returns (Some song)"
    by (auto simp: downloadFirebaseSong_def split: outcome.splits option.splits)
  with assms obtain url where u: "testAudioUrl env (fs_audioUrl song) = Some url" and m: "\<not> fb_mkdir_fails env"
    by (auto simp: downloadFirebaseSong_def split: option.splits if_splits)
  with assms \<open>firebase_getSong env = Returns (Some song)\<close>
  obtain status uri content where
    d: "fb_downloadAsync env url (fb_documentDirectory env @ ''songs/'' @ i @ ''.m4a'')
          = DownloadResult status uri content"
    by (auto simp: downloadFirebaseSong_def Let_def split: download_result.splits)
  let ?st1 = "st\<lparr>files := (files st)(uri := content)\<rparr>"
  from assms \<open>firebase_getSong env = Returns (Some song)\<close> u m d
  obtain n where f: "content = Some n" "0 < n"
    and s: "st' = snd (saveDownloadedSong (fb_setItem_fails env) (downloadedSong i song uri (fb_now env)) ?st1)"
    by (auto simp: downloadFirebaseSong_def Let_def split: if_splits option.splits prod.splits sum.splits)
  from s f have "files st' uri = Some n" by (simp add: saveDownloadedSong_files)
  with f show ?thesis by blast
qed


text \<open>
  C2. Whenever a commit returns an identifier, whatever the network state is, the store
  at the return holds under this identifier a recording with this identifier that is not
  synced. And a commit does return the new identifier when a capture is recording, the
  device stops it and gives a URI, the file can be registered, the local store can be
  read and written, and the network state can be fetched, online or offline.
\<close>

theorem commit_is_durable:
  "(stopRecordingAndUpload env userId meta st = (Inr i, st', bg) \<longrightarrow>
      map_option r_id (getRecording (store st') i) = Some i
      \<and> map_option r_isSynced (getRecording (store st') i) = Some False)
   \<and> (au_recording (audio st) = Some h \<and> recordingState (audio st) = RsRecording
       \<and> \<not> stop_fails (c_stop env) \<and> getURI (c_stop env) = Some u \<and> u \<noteq> []
       \<and> \<not> add_original_fails (c_stop env) \<and> \<not> setItem_fails (c_save env)
       \<and> (isWeb (store st) \<or> asyncStorage_recordings (store st) \<noteq> Unparsable)
       \<and> c_netinfo env = NetInfoState c
      \<longrightarrow> fst (stopRecordingAndUpload env userId meta st) = Inr (c_id env))"
proof -
  have a: "stopRecordingAndUpload env userId meta st = (Inr i, st', bg) \<longrightarrow>
      map_option r_id (getRecording (store st') i) = Some i
      \<and> map_option r_isSynced (getRecording (store st') i) = Some False"
  proof
    assume "stopRecordingAndUpload env userId meta st = (Inr i, st', bg)"
    from commit_saved [OF this] obtain uri where
      "getRecording (store st') i = Some ((localRecording i uri meta)\<lparr>r_createdAt := now (c_save env)\<rparr>)"
      by blast
    then show "map_option r_id (getRecording (store st') i) = Some i
      \<and> map_option r_isSynced (getRecording (store st') i) = Some False"
      by (simp add: localRecording_def)
  qed
  have b: "au_recording (audio st) = Some h \<and> recordingState (audio st) = RsRecording
       \<and> \<not> stop_fails (c_stop env) \<and> getURI (c_stop env) = Some u \<and> u \<noteq> []
       \<and> \<not> add_original_fails (c_stop env) \<and> \<not> setItem_fails (c_save env)
       \<and> (isWeb (store st) \<or> asyncStorage_recordings (store st) \<noteq> Unparsable)
       \<and> c_netinfo env = NetInfoState c
      \<longrightarrow> fst (stopRecordingAndUpload env userId meta st) = Inr (c_id env)"
    using commit_returns [of st h env u c userId meta] by blast
  from a b show ?thesis by blast
qed

theorem commit_is_durable_witness:
  "fst (stopRecordingAndUpload commit_offline ''u'' meta_5000 app_capturing) = Inr ''local_1_abc''
   \<and> c_netinfo commit_offline = NetInfoState (Some False)
   \<and> map_option r_isSynced
        (getRecording
           (store (fst (snd (stopRecordingAndUpload commit_offline ''u'' meta_5000 app_capturing))))
           ''local_1_abc'') = Some False
   \<and> au_recording (audio app_capturing) = Some 1
   \<and> recordingState (audio app_capturing) = RsRecording
   \<and> \<not> stop_fails (c_stop commit_offline)
   \<and> getURI (c_stop commit_offline) = Some ''file:///cache/rec.m4a''
   \<and> \<not> add_original_fails (c_stop commit_offline) \<and> \<not> setItem_fails (c_save commit_offline)
   \<and> asyncStorage_recordings (store app_capturing) \<noteq> Unparsable
   \<and> c_id commit_offline = ''local_1_abc''"
proof -
  let ?R = "stopRecordingAndUpload commit_offline ''u'' meta_5000 app_capturing"
  have p: "c_netinfo commit_offline = NetInfoState (Some False)
   \<and> au_recording (audio app_capturing) = Some 1
   \<and> recordingState (audio app_capturing) = RsRecording
   \<and> \<not> stop_fails (c_stop commit_offline)
   \<and> getURI (c_stop commit_offline) = Some ''file:///cache/rec.m4a''
   \<and> \<not> add_original_fails (c_stop commit_offline) \<and> \<not> setItem_fails (c_save commit_offline)
   \<and> asyncStorage_recordings (store app_capturing) \<noteq> Unparsable
   \<and> c_id commit_offline = ''local_1_abc''"
    by (simp add: commit_offline_def app_capturing_def audio_capturing_def stop_ok_def io_ok_def
        mobile_empty_def)
  have n: "''file:///cache/rec.m4a'' \<noteq> []" by simp
  note t = commit_is_durable [of commit_offline "''u''" meta_5000 app_capturing "''local_1_abc''"
      "fst (snd ?R)" "snd (snd ?R)" 1 "''file:///cache/rec.m4a''" "Some False"]
  from t p n have f: "fst ?R = Inr ''local_1_abc''" by metis
  then have "?R = (Inr ''local_1_abc'', fst (snd ?R), snd (snd ?R))"
    by (metis prod.collapse)
  with t have "map_option r_isSynced (getRecording (store (fst (snd ?R))) ''local_1_abc'') = Some False"
    by blast
  with f p show ?thesis by blast
qed

text \<open>
  C6. The claim: a download returns true and marks the song as downloaded only after it
  has verified that the local file exists and is not empty. Evaluated at a catalogue
  song whose remote asset has zero bytes, the download answering 200:
  \<^verbatim>\<open>downloadSong\<close> returns true, the local file has size 0 and the catalogue entry is
  marked as downloaded.
\<close>

theorem downloadSong_accepts_empty_file:
  "fst (downloadSong download_empty_asset ''s1'' songs_initial) = True
   \<and> files (snd (downloadSong download_empty_asset ''s1'' songs_initial))
        ''file:///documents/songs/s1.m4a'' = Some 0
   \<and> map_option s_isDownloaded
        (find (\<lambda>s. s_id s = ''s1'')
           (songs_table (sdb (snd (downloadSong download_empty_asset ''s1'' songs_initial)))))
       = Some True"
  by (simp add: downloadSong_def getSong_def saveSong_def download_empty_asset_def
      songs_initial_def mobile_empty_def song_s1_def io_ok_def Let_def)

end
